theory Spec2Isabelle
  imports Complex_Main
begin

section \<open>Tables, cells and Python errors\<close>

text \<open>
  \<^verbatim>\<open>field_data_processor.py\<close> keeps one pandas DataFrame in \<^verbatim>\<open>self.df\<close> and rewrites it
  in four steps. A DataFrame is modelled column by column, as pandas stores it: a list of
  labelled columns, in column order. Labels may repeat (pandas allows it), so the list is
  an association list and not a map. Rows are positions: row \<open>i\<close> of the table is the
  \<open>i\<close>-th entry of every column.

  A cell is a number, a string or the missing value (pandas' NaN / None). Numbers carry
  their value as a real: \<^verbatim>\<open>abs\<close> and comparison of finite float64 readings are exact.
\<close>

datatype cell = Num real | Str string | Null

type_synonym series = "cell list"

type_synonym frame = "(string \<times> series) list"

text \<open>
  The exceptions the module can raise. A missing column label is Python's \<^verbatim>\<open>KeyError\<close>
  (the specification's SchemaError); \<open>CollaboratorError\<close> is whatever one of the three
  functions of \<^verbatim>\<open>data_ingestion\<close> raised, identified by its message.
\<close>

datatype py_error =
    IndexError
  | KeyError string
  | AttributeError
  | TypeError
  | ValueError
  | CollaboratorError string

section \<open>The pandas operations the module calls\<close>

text \<open>\<^verbatim>\<open>df.columns\<close>: the labels, in order.\<close>

definition columns_of :: "frame \<Rightarrow> string list" where
  "columns_of t = map fst t"

text \<open>
  \<^verbatim>\<open>df.rename(columns=mapper)\<close> with a dict: every label that is a key of the dict is
  replaced by its value, the others stay (\<^verbatim>\<open>errors='ignore'\<close> is the default, so a key
  that labels no column is skipped silently). The data are untouched.
\<close>

definition df_rename :: "(string \<rightharpoonup> string) \<Rightarrow> frame \<Rightarrow> frame" where
  "df_rename mapper t =
     map (\<lambda>(n, vs). ((case mapper n of None \<Rightarrow> n | Some n' \<Rightarrow> n'), vs)) t"

text \<open>
  \<^verbatim>\<open>df[c]\<close>: the columns labelled \<open>c\<close>. None raises \<^verbatim>\<open>KeyError\<close>; one is a Series; several
  (a repeated label) are a sub-frame.
\<close>

definition labelled :: "frame \<Rightarrow> string \<Rightarrow> series list" where
  "labelled t c = map snd (filter (\<lambda>(n, vs). n = c) t)"

definition df_getitem :: "frame \<Rightarrow> string \<Rightarrow> py_error + series list" where
  "df_getitem t c =
     (case labelled t c of
        [] \<Rightarrow> Inl (KeyError c)
      | sel \<Rightarrow> Inr sel)"

text \<open>
  \<^verbatim>\<open>df[c] = value\<close> for a label the frame has: the \<open>k\<close>-th column labelled \<open>c\<close> takes
  the \<open>k\<close>-th column of the value, in place (position and label kept). The module only
  ever assigns back what it has just read from the same label, so there are as many values
  as columns labelled \<open>c\<close>.
\<close>

fun df_setitem :: "frame \<Rightarrow> string \<Rightarrow> series list \<Rightarrow> frame" where
  "df_setitem [] c sel = []"
| "df_setitem ((n, vs) # t) c sel =
     (if n = c then
        (case sel of
           [] \<Rightarrow> (n, vs) # df_setitem t c []
         | w # ws \<Rightarrow> (n, w) # df_setitem t c ws)
      else (n, vs) # df_setitem t c sel)"

text \<open>
  \<^verbatim>\<open>.abs()\<close>, cell by cell: a number becomes its absolute value, a missing value stays
  missing, and a string makes the whole call raise \<^verbatim>\<open>TypeError\<close>.
\<close>

fun is_Num :: "cell \<Rightarrow> bool" where
  "is_Num (Num x) = True"
| "is_Num v = False"

fun is_Str :: "cell \<Rightarrow> bool" where
  "is_Str (Str x) = True"
| "is_Str v = False"

fun cell_abs :: "cell \<Rightarrow> cell" where
  "cell_abs (Num x) = Num \<bar>x\<bar>"
| "cell_abs v = v"

definition frame_abs :: "series list \<Rightarrow> py_error + series list" where
  "frame_abs sel =
     (if list_ex (list_ex is_Str) sel then Inl TypeError
      else Inr (map (map cell_abs) sel))"

text \<open>
  Python's \<^verbatim>\<open>str.strip()\<close> removes the characters for which \<^verbatim>\<open>str.isspace()\<close> holds from
  both ends. A \<open>char\<close> stands for a code point below 256; the white space there is
  TAB, LF, VT, FF, CR, the separators 28 to 31, the space, NEL (133) and the no-break
  space (160).
\<close>

definition isspace :: "char \<Rightarrow> bool" where
  "isspace c = (of_char c \<in> set [9, 10, 11, 12, 13, 28, 29, 30, 31, 32, 133, 160 :: nat])"

definition strip :: "string \<Rightarrow> string" where
  "strip x = rev (dropWhile isspace (rev (dropWhile isspace x)))"

text \<open>
  \<^verbatim>\<open>df[c].str.strip()\<close>. A sub-frame has no \<^verbatim>\<open>.str\<close>, and neither has a Series of numbers
  without a single string: both raise \<^verbatim>\<open>AttributeError\<close>. Otherwise every string is
  stripped and every other cell becomes missing.
\<close>

fun strip_cell :: "cell \<Rightarrow> cell" where
  "strip_cell (Str x) = Str (strip x)"
| "strip_cell v = Null"

definition str_strip :: "series list \<Rightarrow> py_error + series" where
  "str_strip sel =
     (case sel of
        [vs] \<Rightarrow>
          (if list_ex is_Num vs \<and> \<not> list_ex is_Str vs then Inl AttributeError
           else Inr (map strip_cell vs))
      | _ \<Rightarrow> Inl AttributeError)"

text \<open>
  The lambda of \<^verbatim>\<open>apply_corrections\<close>, \<^verbatim>\<open>values_to_rename.get(crop, crop)\<close>, on one cell:
  the keys of the dict are strings, so every other cell is its own default.
\<close>

fun values_get :: "(string \<rightharpoonup> string) \<Rightarrow> cell \<Rightarrow> cell" where
  "values_get m (Str x) = (case m x of None \<Rightarrow> Str x | Some y \<Rightarrow> Str y)"
| "values_get m v = v"

text \<open>
  \<^verbatim>\<open>df[[k1, k2]]\<close>: \<^verbatim>\<open>KeyError\<close> when a key labels no column, otherwise the columns of
  each key, in the order of the keys.
\<close>

definition df_select :: "frame \<Rightarrow> string list \<Rightarrow> py_error + frame" where
  "df_select t ks =
     (case filter (\<lambda>k. k \<notin> set (columns_of t)) ks of
        [] \<Rightarrow> Inr (concat (map (\<lambda>k. filter (\<lambda>(n, vs). n = k) t) ks))
      | k # _ \<Rightarrow> Inl (KeyError k))"

text \<open>
  \<^verbatim>\<open>left.merge(right, on=key, how='left')\<close>. The key must label exactly one column on
  each side (\<^verbatim>\<open>KeyError\<close> for none, \<^verbatim>\<open>ValueError\<close> for a repeated label). Every row of
  \<open>left\<close>, in order, is paired with each row of \<open>right\<close> that has the same key, in the
  order of \<open>right\<close>; a row of \<open>left\<close> without a partner is kept once, with missing values
  in the columns that come from \<open>right\<close>. Missing keys match each other, as in pandas. The
  result has the columns of \<open>left\<close> followed by the columns of \<open>right\<close> other than the key;
  a label other than the key that both sides carry gets the suffix \<^verbatim>\<open>_x\<close> on the left and
  \<^verbatim>\<open>_y\<close> on the right.
\<close>

definition fan :: "series \<Rightarrow> cell \<Rightarrow> nat" where
  "fan rk k = max 1 (length (filter (\<lambda>k'. k' = k) rk))"

definition partners :: "series \<Rightarrow> series \<Rightarrow> cell \<Rightarrow> series" where
  "partners rk rvs k =
     (case map snd (filter (\<lambda>(k', v). k' = k) (zip rk rvs)) of
        [] \<Rightarrow> [Null]
      | ws \<Rightarrow> ws)"

text \<open>
  A column of \<open>left\<close> in the result: the cell of each row, once for each partner of the row
  (once when it has none). A column of \<open>right\<close> in the result: for each row of \<open>left\<close>, the
  cells of its partners (one missing value when it has none).
\<close>

definition left_rows :: "series \<Rightarrow> series \<Rightarrow> series \<Rightarrow> series" where
  "left_rows rk lk vs = concat (map (\<lambda>(k, v). replicate (fan rk k) v) (zip lk vs))"

definition right_rows :: "series \<Rightarrow> series \<Rightarrow> series \<Rightarrow> series" where
  "right_rows rk lk rvs = concat (map (partners rk rvs) lk)"

definition overlapping :: "string \<Rightarrow> frame \<Rightarrow> frame \<Rightarrow> string \<Rightarrow> bool" where
  "overlapping key left rest n =
     (n \<noteq> key \<and> n \<in> set (columns_of left) \<and> n \<in> set (columns_of rest))"

definition df_merge_left :: "frame \<Rightarrow> frame \<Rightarrow> string \<Rightarrow> py_error + frame" where
  "df_merge_left left right key =
     (case (labelled left key, labelled right key) of
        ([], _) \<Rightarrow> Inl (KeyError key)
      | (_, []) \<Rightarrow> Inl (KeyError key)
      | ([lk], [rk]) \<Rightarrow>
          (let rest = filter (\<lambda>(n, vs). n \<noteq> key) right
           in Inr
              (map (\<lambda>(n, vs). (if overlapping key left rest n then n @ ''_x'' else n,
                                left_rows rk lk vs)) left
               @ map (\<lambda>(n, vs). (if overlapping key left rest n then n @ ''_y'' else n,
                                  right_rows rk lk vs)) rest))
      | _ \<Rightarrow> Inl ValueError)"

section \<open>The processor\<close>

text \<open>
  The attributes \<^verbatim>\<open>__init__\<close> sets from \<^verbatim>\<open>config_params\<close>, the table and the engine
  (both \<^verbatim>\<open>None\<close> until loaded), and the logger: whether \<^verbatim>\<open>initialize_logging\<close>
  disabled it, and the messages it has emitted. \<^verbatim>\<open>columns_to_rename\<close> is a dict read
  through \<^verbatim>\<open>list(d.keys())[0]\<close>, so its insertion order matters: an association list.
\<close>

record processor =
  db_path :: string
  sql_query :: string
  columns_to_rename :: "(string \<times> string) list"
  values_to_rename :: "string \<rightharpoonup> string"
  weather_map_data :: string
  logger_disabled :: bool
  logged :: "string list"
  df :: "frame option"
  engine :: "string option"

text \<open>
  The three functions imported from \<^verbatim>\<open>data_ingestion\<close> reach a database and the network;
  what each call returns or raises is a parameter of the model.
\<close>

record collaborators =
  create_db_engine :: "string \<Rightarrow> py_error + string"
  query_data :: "string \<Rightarrow> string \<Rightarrow> py_error + frame"
  read_from_web_CSV :: "string \<Rightarrow> py_error + frame"

definition logger_info :: "processor \<Rightarrow> string \<Rightarrow> processor" where
  "logger_info s msg = (if logger_disabled s then s else s\<lparr>logged := logged s @ [msg]\<rparr>)"

text \<open>
  Every method returns the exception it raised, if any, together with the processor as
  the call left it: an exception does not undo the assignments made before it.
\<close>

definition ingest_sql_data :: "collaborators \<Rightarrow> processor \<Rightarrow> py_error option \<times> processor" where
  "ingest_sql_data E s =
     (case create_db_engine E (db_path s) of
        Inl e \<Rightarrow> (Some e, s)
      | Inr eng \<Rightarrow>
          (let s1 = s\<lparr>engine := Some eng\<rparr> in
           case query_data E eng (sql_query s1) of
             Inl e \<Rightarrow> (Some e, s1)
           | Inr t \<Rightarrow> (None, logger_info (s1\<lparr>df := Some t\<rparr>) ''Sucessfully loaded data.'')))"

text \<open>
  The loop \<^verbatim>\<open>while temp_name in self.df.columns: temp_name += "_"\<close>. Each round makes
  the name longer, and a name that is a label is no longer than all labels together.
\<close>

function temp_name_loop :: "string list \<Rightarrow> string \<Rightarrow> string" where
  "temp_name_loop cols temp_name =
     (if temp_name \<in> set cols then temp_name_loop cols (temp_name @ ''_'') else temp_name)"
  by pat_completeness auto
termination
proof (relation "measure (\<lambda>(cols, temp_name). Suc (sum_list (map length cols)) - length temp_name)")
  show "wf (measure (\<lambda>(cols, temp_name). Suc (sum_list (map length cols)) - length temp_name))"
    by simp
next
  fix cols :: "string list" and temp_name :: string
  assume "temp_name \<in> set cols"
  then have "length temp_name \<le> sum_list (map length cols)"
    by (simp add: member_le_sum_list)
  then show "((cols, temp_name @ ''_''), (cols, temp_name))
      \<in> measure (\<lambda>(cols, temp_name). Suc (sum_list (map length cols)) - length temp_name)"
    by simp
qed

declare temp_name_loop.simps [simp del]

definition rename_columns :: "processor \<Rightarrow> py_error option \<times> processor" where
  "rename_columns s =
     (case columns_to_rename s of
        [] \<Rightarrow> (Some IndexError, s)
      | (column1, column2) # _ \<Rightarrow>
          (let s1 = logger_info s (''Swapped columns: '' @ column1 @ '' with '' @ column2) in
           case df s1 of
             None \<Rightarrow> (Some AttributeError, s1)
           | Some t \<Rightarrow>
               (let temp_name = temp_name_loop (columns_of t) ''__temp_name_for_swap__'';
                    t1 = df_rename ((Map.empty(column1 \<mapsto> temp_name))(column2 \<mapsto> column1)) t;
                    t2 = df_rename (Map.empty(temp_name \<mapsto> column2)) t1
                in (None, s1\<lparr>df := Some t2\<rparr>))))"

definition apply_corrections ::
  "processor \<Rightarrow> string \<Rightarrow> string \<Rightarrow> py_error option \<times> processor" where
  "apply_corrections s column_name abs_column =
     (case df s of
        None \<Rightarrow> (Some TypeError, s)
      | Some t \<Rightarrow>
          (case df_getitem t abs_column of
             Inl e \<Rightarrow> (Some e, s)
           | Inr sel \<Rightarrow>
               (case frame_abs sel of
                  Inl e \<Rightarrow> (Some e, s)
                | Inr sel' \<Rightarrow>
                    (let t1 = df_setitem t abs_column sel'; s1 = s\<lparr>df := Some t1\<rparr> in
                     case df_getitem t1 column_name of
                       Inl e \<Rightarrow> (Some e, s1)
                     | Inr sel2 \<Rightarrow>
                         (case str_strip sel2 of
                            Inl e \<Rightarrow> (Some e, s1)
                          | Inr vs2 \<Rightarrow>
                              (let t2 = df_setitem t1 column_name [vs2];
                                   s2 = s1\<lparr>df := Some t2\<rparr> in
                               case df_getitem t2 column_name of
                                 Inl e \<Rightarrow> (Some e, s2)
                               | Inr [vs3] \<Rightarrow>
                                   (None, s2\<lparr>df := Some (df_setitem t2 column_name
                                      [map (values_get (values_to_rename s2)) vs3])\<rparr>)
                               | Inr _ \<Rightarrow> (Some TypeError, s2)))))))"

definition weather_station_mapping ::
  "collaborators \<Rightarrow> processor \<Rightarrow> py_error option \<times> processor" where
  "weather_station_mapping E s =
     (case read_from_web_CSV E (weather_map_data s) of
        Inl e \<Rightarrow> (Some e, s)
      | Inr wsd \<Rightarrow>
          (case df s of
             None \<Rightarrow> (Some AttributeError, s)
           | Some t \<Rightarrow>
               (case df_select wsd [''Field_ID'', ''Weather_station''] of
                  Inl e \<Rightarrow> (Some e, s)
                | Inr right \<Rightarrow>
                    (case df_merge_left t right ''Field_ID'' of
                       Inl e \<Rightarrow> (Some e, s)
                     | Inr t' \<Rightarrow> (None, s\<lparr>df := Some t'\<rparr>)))))"

text \<open>
  \<^verbatim>\<open>process\<close>: four statements in sequence, with no \<^verbatim>\<open>try\<close> around any of them. A
  statement runs only when the one before returned.
\<close>

definition and_then ::
  "py_error option \<times> processor \<Rightarrow> (processor \<Rightarrow> py_error option \<times> processor)
     \<Rightarrow> py_error option \<times> processor" where
  "and_then r step = (case r of (Some e, s) \<Rightarrow> (Some e, s) | (None, s) \<Rightarrow> step s)"

definition process :: "collaborators \<Rightarrow> processor \<Rightarrow> py_error option \<times> processor" where
  "process E s =
     and_then (and_then (and_then (ingest_sql_data E s)
       rename_columns)
       (\<lambda>s. apply_corrections s ''Crop_type'' ''Elevation''))
       (weather_station_mapping E)"

section \<open>Vocabulary of the properties\<close>

text \<open>
  What the specification says a step does, in its own words, to compare the code with:
  exchanging two labels, rewriting the cells of the columns that carry one label, the
  corrected spelling of a category, a reading that is a number and not negative.
\<close>

definition swap_label :: "string \<Rightarrow> string \<Rightarrow> string \<Rightarrow> string" where
  "swap_label a b n = (if n = a then b else if n = b then a else n)"

definition update_column :: "string \<Rightarrow> (series \<Rightarrow> series) \<Rightarrow> frame \<Rightarrow> frame" where
  "update_column c f t = map (\<lambda>(n, vs). (n, if n = c then f vs else vs)) t"



text \<open>
  What \<^verbatim>\<open>apply_corrections\<close> does to one cell of a column labelled \<open>n\<close>: the magnitude
  transform if \<open>n\<close> is the magnitude column, then the stripping and the substitution if
  \<open>n\<close> is the categorical column.
\<close>

definition correction_of :: "(string \<rightharpoonup> string) \<Rightarrow> string \<Rightarrow> string \<Rightarrow> string \<Rightarrow> cell \<Rightarrow> cell" where
  "correction_of m column_name abs_column n v =
     (let v1 = (if n = abs_column then cell_abs v else v)
      in if n = column_name then values_get m (strip_cell v1) else v1)"

definition corrected_table :: "(string \<rightharpoonup> string) \<Rightarrow> string \<Rightarrow> string \<Rightarrow> frame \<Rightarrow> frame" where
  "corrected_table m column_name abs_column t =
     map (\<lambda>(n, vs). (n, map (correction_of m column_name abs_column n) vs)) t"


section \<open>A survey table to run the steps on\<close>

text \<open>
  Three fields as the query returns them: the crop names sit under \<^verbatim>\<open>Annual_yield\<close> and the
  yields under \<^verbatim>\<open>Crop_type\<close> (the two labels the configuration exchanges), one elevation
  is negative, and the crop names carry stray blanks and misspellings. The lookup knows the
  stations of fields 1, 2 and 3, so field 5 has no station.
\<close>

definition survey_table :: frame where
  "survey_table =
     [(''Field_ID'', [Num 1, Num 2, Num 5]),
      (''Elevation'', [Num (-120), Num 35, Num 0]),
      (''Annual_yield'', [Str ''maize '', Str '' teaa'', Str ''wheatn'']),
      (''Crop_type'', [Num 3, Num 1, Num 4])]"

text \<open>The same table once the two labels are exchanged, and once it is corrected.\<close>

definition renamed_table :: frame where
  "renamed_table =
     [(''Field_ID'', [Num 1, Num 2, Num 5]),
      (''Elevation'', [Num (-120), Num 35, Num 0]),
      (''Crop_type'', [Str ''maize '', Str '' teaa'', Str ''wheatn'']),
      (''Annual_yield'', [Num 3, Num 1, Num 4])]"

definition cleaned_table :: frame where
  "cleaned_table =
     [(''Field_ID'', [Num 1, Num 2, Num 5]),
      (''Elevation'', [Num 120, Num 35, Num 0]),
      (''Crop_type'', [Str ''maize'', Str ''tea'', Str ''wheat'']),
      (''Annual_yield'', [Num 3, Num 1, Num 4])]"

text \<open>
  A table whose crop names all end up among the values of the substitution, before and
  after its correction.
\<close>

definition tea_table :: frame where
  "tea_table =
     [(''Crop_type'', [Str '' teaa'', Str ''wheatn'']),
      (''Elevation'', [Num (-3), Num 2])]"

definition settled_table :: frame where
  "settled_table =
     [(''Crop_type'', [Str ''tea'', Str ''wheat'']),
      (''Elevation'', [Num 3, Num 2])]"

definition station_lookup :: frame where
  "station_lookup =
     [(''Field_ID'', [Num 2, Num 1, Num 3]),
      (''Weather_station'', [Num 7, Num 0, Num 4]),
      (''Message'', [Str ''ok'', Str ''ok'', Str ''late''])]"

definition survey_config :: processor where
  "survey_config =
     \<lparr>db_path = ''sqlite:///survey.db'',
      sql_query = ''SELECT * FROM fields'',
      columns_to_rename = [(''Annual_yield'', ''Crop_type''), (''Crop_type'', ''Annual_yield'')],
      values_to_rename = [''teaa'' \<mapsto> ''tea'', ''wheatn'' \<mapsto> ''wheat''],
      weather_map_data = ''https://example.org/stations.csv'',
      logger_disabled = False,
      logged = [],
      df = None,
      engine = None\<rparr>"

text \<open>A substitution in which one value (\<^verbatim>\<open>tea\<close>) is itself a key.\<close>

definition chained_config :: processor where
  "chained_config =
     survey_config
       \<lparr>values_to_rename := [''teaa'' \<mapsto> ''tea'', ''tea'' \<mapsto> ''coffee''],
        df := Some [(''Crop_type'', [Str ''teaa'']), (''Elevation'', [Num 1])]\<rparr>"

text \<open>
  A configuration that names a label the table does not have, and the processor once the
  table is loaded under it.
\<close>

definition soil_config :: processor where
  "soil_config = survey_config\<lparr>columns_to_rename := [(''Soil_type'', ''Crop_type'')]\<rparr>"

definition soil_loaded :: processor where
  "soil_loaded =
     soil_config
       \<lparr>logged := [''Sucessfully loaded data.''],
        df := Some survey_table,
        engine := Some ''sqlite:///survey.db''\<rparr>"

text \<open>
  A data source whose crop names are numbers too: after the exchange of the two labels the
  categorical column holds no string.
\<close>

definition numeric_table :: frame where
  "numeric_table =
     [(''Field_ID'', [Num 1]),
      (''Elevation'', [Num (-120)]),
      (''Annual_yield'', [Num 3]),
      (''Crop_type'', [Num 4])]"

definition numeric_sources :: collaborators where
  "numeric_sources =
     \<lparr>create_db_engine = (\<lambda>path. Inr path),
      query_data = (\<lambda>eng q. Inr numeric_table),
      read_from_web_CSV = (\<lambda>url. Inr station_lookup)\<rparr>"

definition survey_sources :: collaborators where
  "survey_sources =
     \<lparr>create_db_engine = (\<lambda>path. Inr path),
      query_data = (\<lambda>eng q. Inr survey_table),
      read_from_web_CSV = (\<lambda>url. Inr station_lookup)\<rparr>"

section \<open>Columns by label\<close>

lemma labelled_Nil [simp]: "labelled [] c = []"
  by (simp add: labelled_def)

lemma labelled_Cons [simp]:
  "labelled ((n, vs) # t) c = (if n = c then vs # labelled t c else labelled t c)"
  by (simp add: labelled_def)

lemma update_column_Nil [simp]: "update_column c f [] = []"
  by (simp add: update_column_def)

lemma update_column_Cons [simp]:
  "update_column c f ((n, vs) # t) = (n, if n = c then f vs else vs) # update_column c f t"
  by (simp add: update_column_def)

lemma df_setitem_labelled: "df_setitem t c (map f (labelled t c)) = update_column c f t"
  by (induction t) auto

lemma labelled_update_column:
  "labelled (update_column c f t) c' = (if c' = c then map f (labelled t c') else labelled t c')"
  by (induction t) auto

lemma columns_of_update_column [simp]: "columns_of (update_column c f t) = columns_of t"
  by (induction t) (auto simp: columns_of_def)

lemma length_update_column [simp]: "length (update_column c f t) = length t"
  by (simp add: update_column_def)


lemma df_getitem_if:
  "df_getitem t c = (if labelled t c = [] then Inl (KeyError c) else Inr (labelled t c))"
  by (cases "labelled t c") (simp_all add: df_getitem_def)

section \<open>apply_corrections, branch by branch\<close>

lemma apply_corrections_unfold:
  assumes "df s = Some t"
  shows "apply_corrections s cn ac =
    (if labelled t ac = [] then (Some (KeyError ac), s)
     else if list_ex (list_ex is_Str) (labelled t ac) then (Some TypeError, s)
     else
       (case labelled (update_column ac (map cell_abs) t) cn of
          [] \<Rightarrow> (Some (KeyError cn), s\<lparr>df := Some (update_column ac (map cell_abs) t)\<rparr>)
        | [vs] \<Rightarrow>
            if list_ex is_Num vs \<and> \<not> list_ex is_Str vs
            then (Some AttributeError, s\<lparr>df := Some (update_column ac (map cell_abs) t)\<rparr>)
            else (None, s\<lparr>df := Some
                    (update_column cn (map (values_get (values_to_rename s)))
                      (update_column cn (map strip_cell)
                        (update_column ac (map cell_abs) t)))\<rparr>)
        | _ \<Rightarrow> (Some AttributeError, s\<lparr>df := Some (update_column ac (map cell_abs) t)\<rparr>)))"
proof (cases "labelled t ac = []")
  case True
  then show ?thesis
    using assms by (simp add: apply_corrections_def df_getitem_if)
next
  case present: False
  show ?thesis
  proof (cases "list_ex (list_ex is_Str) (labelled t ac)")
    case True
    then show ?thesis
      using assms present
      by (simp add: apply_corrections_def df_getitem_if frame_abs_def)
  next
    case numeric: False
    define t1 where "t1 = update_column ac (map cell_abs) t"
    have abs_done: "df_setitem t ac (map (map cell_abs) (labelled t ac)) = t1"
      by (simp add: t1_def df_setitem_labelled)
    have start: "apply_corrections s cn ac =
        (case df_getitem t1 cn of
           Inl e \<Rightarrow> (Some e, s\<lparr>df := Some t1\<rparr>)
         | Inr sel2 \<Rightarrow>
             (case str_strip sel2 of
                Inl e \<Rightarrow> (Some e, s\<lparr>df := Some t1\<rparr>)
              | Inr vs2 \<Rightarrow>
                  (case df_getitem (df_setitem t1 cn [vs2]) cn of
                     Inl e \<Rightarrow> (Some e, s\<lparr>df := Some (df_setitem t1 cn [vs2])\<rparr>)
                   | Inr [vs3] \<Rightarrow>
                       (None, s\<lparr>df := Some (df_setitem (df_setitem t1 cn [vs2]) cn
                          [map (values_get (values_to_rename s)) vs3])\<rparr>)
                   | Inr _ \<Rightarrow> (Some TypeError, s\<lparr>df := Some (df_setitem t1 cn [vs2])\<rparr>))))"
      using assms present numeric abs_done
      by (simp add: apply_corrections_def df_getitem_if [of t] frame_abs_def Let_def
          cong: sum.case_cong list.case_cong)
    show ?thesis
    proof (cases "labelled t1 cn")
      case Nil
      then show ?thesis
        using present numeric by (simp add: start df_getitem_def t1_def)
    next
      case (Cons vs more)
      show ?thesis
      proof (cases more)
        case one: Nil
        have sel: "labelled t1 cn = [vs]" using Cons one by simp
        show ?thesis
        proof (cases "list_ex is_Num vs \<and> \<not> list_ex is_Str vs")
          case True
          then show ?thesis
            using present numeric sel
            by (simp add: start df_getitem_def str_strip_def t1_def [symmetric])
        next
          case False
          define t2 where "t2 = update_column cn (map strip_cell) t1"
          have "df_setitem t1 cn (map (map strip_cell) (labelled t1 cn)) = t2"
            by (simp add: t2_def df_setitem_labelled)
          then have strip_done: "df_setitem t1 cn [map strip_cell vs] = t2"
            by (simp add: sel)
          have sel2: "labelled t2 cn = [map strip_cell vs]"
            by (simp add: t2_def labelled_update_column sel)
          have "df_setitem t2 cn (map (map (values_get (values_to_rename s))) (labelled t2 cn))
              = update_column cn (map (values_get (values_to_rename s))) t2"
            by (rule df_setitem_labelled)
          then have apply_done: "df_setitem t2 cn [map (values_get (values_to_rename s)) (map strip_cell vs)]
              = update_column cn (map (values_get (values_to_rename s))) t2"
            by (simp add: sel2)
          show ?thesis
            using present numeric sel False strip_done sel2 apply_done
            by (simp add: start df_getitem_def str_strip_def t1_def [symmetric] t2_def [symmetric])
        qed
      next
        case (Cons w more')
        then show ?thesis
          using present numeric \<open>labelled t1 cn = vs # more\<close>
          by (simp add: start df_getitem_def str_strip_def t1_def [symmetric])
      qed
    qed
  qed
qed

section \<open>rename_columns\<close>

lemma temp_name_loop_fresh: "temp_name_loop cols temp_name \<notin> set cols"
proof (induction cols temp_name rule: temp_name_loop.induct)
  case (1 cols temp_name)
  show ?case
  proof (cases "temp_name \<in> set cols")
    case True
    with 1 show ?thesis
      by (simp add: temp_name_loop.simps [of cols temp_name])
  next
    case False
    then show ?thesis by (simp add: temp_name_loop.simps [of cols temp_name])
  qed
qed

lemma temp_name_loop_taken:
  "temp_name_loop [''Field_ID'', ''__temp_name_for_swap__'', ''__temp_name_for_swap___'']
     ''__temp_name_for_swap__'' = ''__temp_name_for_swap____''"
  by (simp add: temp_name_loop.simps)

lemma label_differs_from_temp: "c \<in> set cols \<Longrightarrow> c \<noteq> temp_name_loop cols temp_name"
  using temp_name_loop_fresh [of cols temp_name] by blast

lemma df_logger_info [simp]: "df (logger_info s msg) = df s"
  by (simp add: logger_info_def)

lemma columns_to_rename_logger_info [simp]:
  "columns_to_rename (logger_info s msg) = columns_to_rename s"
  by (simp add: logger_info_def)

lemma label_not_temp: "tmp \<notin> set (columns_of t) \<Longrightarrow> (n, vs) \<in> set t \<Longrightarrow> n \<noteq> tmp"
  by (force simp: columns_of_def)

lemma swap_via_temp:
  assumes "tmp \<notin> set (columns_of t)" and "column1 \<noteq> tmp"
  shows "df_rename (Map.empty(tmp \<mapsto> column2))
           (df_rename ((Map.empty(column1 \<mapsto> tmp))(column2 \<mapsto> column1)) t)
         = map (\<lambda>(n, vs). (swap_label column1 column2 n, vs)) t"
  using label_not_temp [OF assms(1)] assms(2)
  by (auto simp: df_rename_def swap_label_def)

lemma swap_temp_itself:
  assumes "tmp \<notin> set (columns_of t)"
  shows "df_rename (Map.empty(tmp \<mapsto> column2))
           (df_rename ((Map.empty(tmp \<mapsto> tmp))(column2 \<mapsto> tmp)) t) = t"
  using label_not_temp [OF assms]
  by (auto simp: df_rename_def intro!: map_idI)

lemma rename_columns_result:
  assumes "df s = Some t" and "columns_to_rename s = (column1, column2) # others"
  shows "rename_columns s =
     (None, (logger_info s (''Swapped columns: '' @ column1 @ '' with '' @ column2))
        \<lparr>df := Some (if column1 = temp_name_loop (columns_of t) ''__temp_name_for_swap__'' then t
                     else map (\<lambda>(n, vs). (swap_label column1 column2 n, vs)) t)\<rparr>)"
proof -
  define tmp where "tmp = temp_name_loop (columns_of t) ''__temp_name_for_swap__''"
  have fresh: "tmp \<notin> set (columns_of t)"
    unfolding tmp_def by (rule temp_name_loop_fresh)
  have "rename_columns s =
     (None, (logger_info s (''Swapped columns: '' @ column1 @ '' with '' @ column2))
        \<lparr>df := Some (df_rename (Map.empty(tmp \<mapsto> column2))
           (df_rename ((Map.empty(column1 \<mapsto> tmp))(column2 \<mapsto> column1)) t))\<rparr>)"
    using assms by (simp add: rename_columns_def Let_def tmp_def)
  then show ?thesis
    using swap_via_temp [OF fresh, of column1 column2] swap_temp_itself [OF fresh, of column2]
    by (cases "column1 = tmp") (simp_all add: tmp_def [symmetric])
qed

lemma rename_columns_returns:
  assumes "df s = Some t" and "columns_to_rename s = (column1, column2) # others"
  shows "fst (rename_columns s) = None"
  by (simp add: rename_columns_result [OF assms])

lemma rename_columns_table:
  assumes "df s = Some t" and "columns_to_rename s = (column1, column2) # others"
  shows "df (snd (rename_columns s)) =
     Some (if column1 = temp_name_loop (columns_of t) ''__temp_name_for_swap__'' then t
           else map (\<lambda>(n, vs). (swap_label column1 column2 n, vs)) t)"
  by (simp add: rename_columns_result [OF assms])

lemma rename_columns_table_swapped:
  assumes "df s = Some t" and "columns_to_rename s = (column1, column2) # others"
    and "column1 \<in> set (columns_of t)"
  shows "df (snd (rename_columns s)) = Some (map (\<lambda>(n, vs). (swap_label column1 column2 n, vs)) t)"
  using label_differs_from_temp [OF assms(3), of "''__temp_name_for_swap__''"]
  by (simp add: rename_columns_table [OF assms(1) assms(2)])

text \<open>
  C1. When the table carries both labels of the single entry \<open>{source: target}\<close>,
  \<^verbatim>\<open>rename_columns\<close> returns normally and exchanges the two labels: a column labelled
  \<open>source\<close> is now labelled \<open>target\<close>, a column labelled \<open>target\<close> is now labelled
  \<open>source\<close>, every other column keeps its label, every column keeps its position and its
  data, and the placeholder the loop settles on is no label of the table.
\<close>

theorem rename_columns_swaps_labels:
  assumes "df s = Some t"
    and "columns_to_rename s = [(source, target)]"
    and "source \<in> set (columns_of t)"
    and "target \<in> set (columns_of t)"
  shows "fst (rename_columns s) = None
       \<and> df (snd (rename_columns s)) = Some (map (\<lambda>(n, vs). (swap_label source target n, vs)) t)
       \<and> temp_name_loop (columns_of t) ''__temp_name_for_swap__'' \<notin> set (columns_of t)"
proof -
  have "temp_name_loop (columns_of t) ''__temp_name_for_swap__'' \<notin> set (columns_of t)"
    by (rule temp_name_loop_fresh)
  moreover have "fst (rename_columns s) = None"
    by (rule rename_columns_returns [OF assms(1) assms(2)])
  moreover have "df (snd (rename_columns s))
      = Some (map (\<lambda>(n, vs). (swap_label source target n, vs)) t)"
    by (rule rename_columns_table_swapped [OF assms(1) assms(2) assms(3)])
  ultimately show ?thesis by simp
qed

theorem rename_columns_swaps_labels_witness:
  "fst (rename_columns (survey_config\<lparr>columns_to_rename := [(''Annual_yield'', ''Crop_type'')],
                                       df := Some survey_table\<rparr>)) = None
   \<and> df (snd (rename_columns (survey_config\<lparr>columns_to_rename := [(''Annual_yield'', ''Crop_type'')],
                                             df := Some survey_table\<rparr>)))
     = Some [(''Field_ID'', [Num 1, Num 2, Num 5]),
             (''Elevation'', [Num (-120), Num 35, Num 0]),
             (''Crop_type'', [Str ''maize '', Str '' teaa'', Str ''wheatn'']),
             (''Annual_yield'', [Num 3, Num 1, Num 4])]
   \<and> temp_name_loop (columns_of survey_table) ''__temp_name_for_swap__''
       \<notin> set (columns_of survey_table)"
  using rename_columns_swaps_labels
    [of "survey_config\<lparr>columns_to_rename := [(''Annual_yield'', ''Crop_type'')], df := Some survey_table\<rparr>"
        survey_table "''Annual_yield''" "''Crop_type''"]
  by (simp add: survey_table_def columns_of_def swap_label_def)

lemma swap_label_twice [simp]: "swap_label a b (swap_label a b n) = n"
  by (simp add: swap_label_def)

lemma swap_columns_twice:
  "map (\<lambda>(n, vs). (swap_label a b n, vs)) (map (\<lambda>(n, vs). (swap_label a b n, vs)) t) = t"
  by (induction t) auto

lemma columns_of_swapped:
  "columns_of (map (\<lambda>(n, vs). (swap_label a b n, vs)) t) = map (swap_label a b) (columns_of t)"
  by (induction t) (auto simp: columns_of_def)

lemma columns_to_rename_kept:
  assumes "df s = Some t" and "columns_to_rename s = (column1, column2) # others"
  shows "columns_to_rename (snd (rename_columns s)) = columns_to_rename s"
  by (simp add: rename_columns_result [OF assms])

text \<open>
  C7. With both labels of the single entry in the table, a second \<^verbatim>\<open>rename_columns\<close>
  under the same configuration undoes the first: both calls return normally and the table
  is the one before the first call, labels, order and data.
\<close>

theorem rename_columns_twice_restores:
  assumes "df s = Some t"
    and "columns_to_rename s = [(source, target)]"
    and "source \<in> set (columns_of t)"
    and "target \<in> set (columns_of t)"
  shows "fst (rename_columns s) = None
       \<and> fst (rename_columns (snd (rename_columns s))) = None
       \<and> df (snd (rename_columns (snd (rename_columns s)))) = Some t"
proof -
  let ?swapped = "map (\<lambda>(n, vs). (swap_label source target n, vs)) t"
  let ?s1 = "snd (rename_columns s)"
  have first: "fst (rename_columns s) = None"
    by (rule rename_columns_returns [OF assms(1) assms(2)])
  have table1: "df ?s1 = Some ?swapped"
    by (rule rename_columns_table_swapped [OF assms(1) assms(2) assms(3)])
  have config: "columns_to_rename ?s1 = [(source, target)]"
    using columns_to_rename_kept [OF assms(1) assms(2)] assms(2) by simp
  have "source \<in> swap_label source target ` set (columns_of t)"
    by (rule image_eqI [where x = target]) (simp_all add: swap_label_def assms(4))
  then have again: "source \<in> set (columns_of ?swapped)"
    by (simp add: columns_of_swapped)
  have second: "fst (rename_columns ?s1) = None"
    by (rule rename_columns_returns [OF table1 config])
  have "df (snd (rename_columns ?s1))
      = Some (map (\<lambda>(n, vs). (swap_label source target n, vs)) ?swapped)"
    by (rule rename_columns_table_swapped [OF table1 config again])
  then have "df (snd (rename_columns ?s1)) = Some t"
    by (simp only: swap_columns_twice)
  with first second show ?thesis by simp
qed

theorem rename_columns_twice_restores_witness:
  "fst (rename_columns (survey_config\<lparr>columns_to_rename := [(''Crop_type'', ''Elevation'')],
                                       df := Some survey_table\<rparr>)) = None
   \<and> fst (rename_columns (snd (rename_columns
        (survey_config\<lparr>columns_to_rename := [(''Crop_type'', ''Elevation'')],
                        df := Some survey_table\<rparr>)))) = None
   \<and> df (snd (rename_columns (snd (rename_columns
        (survey_config\<lparr>columns_to_rename := [(''Crop_type'', ''Elevation'')],
                        df := Some survey_table\<rparr>)))))
     = Some survey_table"
proof -
  let ?s = "survey_config\<lparr>columns_to_rename := [(''Crop_type'', ''Elevation'')],
                          df := Some survey_table\<rparr>"
  have loaded: "df ?s = Some survey_table" by simp
  have config: "columns_to_rename ?s = [(''Crop_type'', ''Elevation'')]" by simp
  have source: "''Crop_type'' \<in> set (columns_of survey_table)"
    by (simp add: survey_table_def columns_of_def)
  have target: "''Elevation'' \<in> set (columns_of survey_table)"
    by (simp add: survey_table_def columns_of_def)
  show ?thesis
    by (rule rename_columns_twice_restores [OF loaded config source target])
qed

lemma swapped_other_columns:
  assumes "fst p \<noteq> a" and "fst p \<noteq> b"
  shows "(case p of (n, vs) \<Rightarrow> (swap_label a b n, vs)) = p"
  using assms by (cases p) (simp add: swap_label_def)

text \<open>
  C9. With several entries in \<^verbatim>\<open>columns_to_rename\<close>, only the first key and the first
  value are read: the call returns what it returns when the other entries are dropped from
  the configuration. With both labels of the first entry in the table the labels are
  exchanged; in every case a column whose label is neither of the two keeps its label, its
  position and its data.
\<close>

theorem rename_columns_reads_first_entry:
  assumes "df s = Some t"
    and "columns_to_rename s = (column1, column2) # others"
  shows "fst (rename_columns s) = None
       \<and> rename_columns (s\<lparr>columns_to_rename := [(column1, column2)]\<rparr>)
           = (None, (snd (rename_columns s))\<lparr>columns_to_rename := [(column1, column2)]\<rparr>)
       \<and> (column1 \<in> set (columns_of t) \<and> column2 \<in> set (columns_of t) \<longrightarrow>
            df (snd (rename_columns s)) = Some (map (\<lambda>(n, vs). (swap_label column1 column2 n, vs)) t))
       \<and> (\<exists>t'. df (snd (rename_columns s)) = Some t' \<and> length t' = length t
             \<and> (\<forall>i < length t. fst (t ! i) \<noteq> column1 \<and> fst (t ! i) \<noteq> column2 \<longrightarrow> t' ! i = t ! i))"
proof -
  let ?one = "s\<lparr>columns_to_rename := [(column1, column2)]\<rparr>"
  have one: "df ?one = Some t" "columns_to_rename ?one = (column1, column2) # []"
    using assms(1) by simp_all
  have returns: "fst (rename_columns s) = None"
    by (rule rename_columns_returns [OF assms])
  have same: "rename_columns ?one
      = (None, (snd (rename_columns s))\<lparr>columns_to_rename := [(column1, column2)]\<rparr>)"
    by (simp add: rename_columns_result [OF assms] rename_columns_result [OF one] logger_info_def)
  have both: "column1 \<in> set (columns_of t) \<and> column2 \<in> set (columns_of t) \<longrightarrow>
      df (snd (rename_columns s)) = Some (map (\<lambda>(n, vs). (swap_label column1 column2 n, vs)) t)"
    using rename_columns_table_swapped [OF assms] by blast
  have others: "\<exists>t'. df (snd (rename_columns s)) = Some t' \<and> length t' = length t
      \<and> (\<forall>i < length t. fst (t ! i) \<noteq> column1 \<and> fst (t ! i) \<noteq> column2 \<longrightarrow> t' ! i = t ! i)"
    by (simp add: rename_columns_table [OF assms] swapped_other_columns)
  from returns same both others show ?thesis
    by (intro conjI)
qed

theorem rename_columns_reads_first_entry_witness:
  "columns_to_rename (survey_config\<lparr>df := Some survey_table\<rparr>)
     = [(''Annual_yield'', ''Crop_type''), (''Crop_type'', ''Annual_yield'')]
   \<and> rename_columns (survey_config\<lparr>df := Some survey_table,
                                    columns_to_rename := [(''Annual_yield'', ''Crop_type'')]\<rparr>)
     = (None, (snd (rename_columns (survey_config\<lparr>df := Some survey_table\<rparr>)))
                \<lparr>columns_to_rename := [(''Annual_yield'', ''Crop_type'')]\<rparr>)
   \<and> df (snd (rename_columns (survey_config\<lparr>df := Some survey_table\<rparr>)))
     = Some [(''Field_ID'', [Num 1, Num 2, Num 5]),
             (''Elevation'', [Num (-120), Num 35, Num 0]),
             (''Crop_type'', [Str ''maize '', Str '' teaa'', Str ''wheatn'']),
             (''Annual_yield'', [Num 3, Num 1, Num 4])]"
proof -
  let ?s = "survey_config\<lparr>df := Some survey_table\<rparr>"
  have loaded: "df ?s = Some survey_table" by simp
  have config: "columns_to_rename ?s
      = (''Annual_yield'', ''Crop_type'') # [(''Crop_type'', ''Annual_yield'')]"
    by (simp add: survey_config_def)
  have both: "''Annual_yield'' \<in> set (columns_of survey_table)
      \<and> ''Crop_type'' \<in> set (columns_of survey_table)"
    by (simp add: survey_table_def columns_of_def)
  note first = rename_columns_reads_first_entry [OF loaded config]
  note same = first [THEN conjunct2, THEN conjunct1]
  have "df (snd (rename_columns ?s))
      = Some (map (\<lambda>(n, vs). (swap_label ''Annual_yield'' ''Crop_type'' n, vs)) survey_table)"
    by (rule first [THEN conjunct2, THEN conjunct2, THEN conjunct1, THEN mp, OF both])
  then have swapped: "df (snd (rename_columns ?s))
     = Some [(''Field_ID'', [Num 1, Num 2, Num 5]),
             (''Elevation'', [Num (-120), Num 35, Num 0]),
             (''Crop_type'', [Str ''maize '', Str '' teaa'', Str ''wheatn'']),
             (''Annual_yield'', [Num 3, Num 1, Num 4])]"
    by (simp add: survey_table_def swap_label_def)
  show ?thesis
    by (intro conjI config same swapped)
qed

section \<open>apply_corrections when it returns\<close>

lemma apply_corrections_loaded:
  "apply_corrections s cn ac = (None, s') \<Longrightarrow> \<exists>t. df s = Some t"
  by (cases "df s") (simp_all add: apply_corrections_def)

lemma correction_of_other [simp]:
  "n \<noteq> cn \<Longrightarrow> n \<noteq> ac \<Longrightarrow> correction_of m cn ac n v = v"
  by (simp add: correction_of_def)

lemma map_correction_of_other [simp]:
  "n \<noteq> cn \<Longrightarrow> n \<noteq> ac \<Longrightarrow> map (correction_of m cn ac n) vs = vs"
  by (induction vs) simp_all

lemma three_updates:
  "update_column cn (map (values_get m)) (update_column cn (map strip_cell)
     (update_column ac (map cell_abs) t)) = corrected_table m cn ac t"
  by (induction t) (auto simp: corrected_table_def correction_of_def comp_def)

lemma apply_corrections_success:
  assumes "df s = Some t" and "apply_corrections s cn ac = (None, s')"
  shows "s' = s\<lparr>df := Some (corrected_table (values_to_rename s) cn ac t)\<rparr>"
    and "labelled t ac \<noteq> []"
    and "\<not> list_ex (list_ex is_Str) (labelled t ac)"
    and "\<exists>vs. labelled (update_column ac (map cell_abs) t) cn = [vs]
           \<and> \<not> (list_ex is_Num vs \<and> \<not> list_ex is_Str vs)"
  using assms(2) unfolding apply_corrections_unfold [OF assms(1)] three_updates
  by (auto split: if_splits list.splits)

lemma labelled_corrected_table:
  "labelled (corrected_table m cn ac t) c = map (map (correction_of m cn ac c)) (labelled t c)"
  by (induction t) (auto simp: corrected_table_def)

lemma columns_of_corrected_table [simp]:
  "columns_of (corrected_table m cn ac t) = columns_of t"
  by (induction t) (auto simp: corrected_table_def columns_of_def)




lemma corrected_table_other_columns:
  assumes "fst p \<noteq> cn" and "fst p \<noteq> ac"
  shows "(case p of (n, vs) \<Rightarrow> (n, map (correction_of m cn ac n) vs)) = p"
  using assms by (cases p) simp

lemma corrected_table_lengths:
  "map (\<lambda>(n, vs). length vs) (corrected_table m cn ac t) = map (\<lambda>(n, vs). length vs) t"
  by (induction t) (auto simp: corrected_table_def)

text \<open>
  C10. When \<^verbatim>\<open>apply_corrections\<close> returns, nothing but the table has changed in the
  processor, the table has the same labels in the same order, every column has as many
  rows as before, and a column labelled neither with the categorical nor with the
  magnitude label is the column it was, cell by cell in the same row order.
\<close>

theorem apply_corrections_frame:
  assumes "df s = Some t"
    and "apply_corrections s column_name abs_column = (None, s')"
  shows "\<exists>t'. s' = s\<lparr>df := Some t'\<rparr>
       \<and> columns_of t' = columns_of t
       \<and> map (\<lambda>(n, vs). length vs) t' = map (\<lambda>(n, vs). length vs) t
       \<and> (\<forall>i < length t. fst (t ! i) \<noteq> column_name \<and> fst (t ! i) \<noteq> abs_column \<longrightarrow> t' ! i = t ! i)"
proof -
  let ?t' = "corrected_table (values_to_rename s) column_name abs_column t"
  have "s' = s\<lparr>df := Some ?t'\<rparr>"
    by (rule apply_corrections_success(1) [OF assms])
  moreover have "columns_of ?t' = columns_of t"
    by simp
  moreover have "map (\<lambda>(n, vs). length vs) ?t' = map (\<lambda>(n, vs). length vs) t"
    by (rule corrected_table_lengths)
  moreover have "\<forall>i < length t. fst (t ! i) \<noteq> column_name \<and> fst (t ! i) \<noteq> abs_column
      \<longrightarrow> ?t' ! i = t ! i"
    by (simp add: corrected_table_def corrected_table_other_columns)
  ultimately show ?thesis by blast
qed

section \<open>The survey table, corrected\<close>

lemma strip_examples:
  "strip ''maize '' = ''maize''" "strip '' teaa'' = ''teaa''" "strip ''wheatn'' = ''wheatn''"
  "strip ''teaa'' = ''teaa''" "strip ''tea'' = ''tea''" "strip ''wheat'' = ''wheat''"
  "strip ''maize'' = ''maize''"
  by (simp_all add: strip_def isspace_def)

lemma survey_corrections:
  "apply_corrections (survey_config\<lparr>df := Some renamed_table\<rparr>) ''Crop_type'' ''Elevation''
     = (None, survey_config\<lparr>df := Some cleaned_table\<rparr>)"
  by (simp add: apply_corrections_unfold [of _ renamed_table] three_updates)
     (simp add: renamed_table_def cleaned_table_def corrected_table_def correction_of_def
        survey_config_def strip_examples)



theorem apply_corrections_frame_witness:
  "apply_corrections (survey_config\<lparr>df := Some renamed_table\<rparr>) ''Crop_type'' ''Elevation''
     = (None, survey_config\<lparr>df := Some cleaned_table\<rparr>)
   \<and> (\<exists>t'. survey_config\<lparr>df := Some cleaned_table\<rparr> = survey_config\<lparr>df := Some renamed_table\<rparr>\<lparr>df := Some t'\<rparr>
         \<and> columns_of t' = columns_of renamed_table
         \<and> map (\<lambda>(n, vs). length vs) t' = map (\<lambda>(n, vs). length vs) renamed_table
         \<and> (\<forall>i < length renamed_table.
               fst (renamed_table ! i) \<noteq> ''Crop_type'' \<and> fst (renamed_table ! i) \<noteq> ''Elevation''
               \<longrightarrow> t' ! i = renamed_table ! i))
   \<and> cleaned_table ! 0 = renamed_table ! 0
   \<and> cleaned_table ! 3 = renamed_table ! 3"
proof -
  have loaded: "df (survey_config\<lparr>df := Some renamed_table\<rparr>) = Some renamed_table"
    by simp
  have first: "cleaned_table ! 0 = renamed_table ! 0"
    by (simp add: cleaned_table_def renamed_table_def)
  have last: "cleaned_table ! 3 = renamed_table ! 3"
    by (simp add: cleaned_table_def renamed_table_def)
  show ?thesis
    by (intro conjI survey_corrections first last
        apply_corrections_frame [OF loaded survey_corrections])
qed

section \<open>apply_corrections a second time\<close>

lemma correction_of_magnitude_twice:
  "\<not> is_Str v \<Longrightarrow>
     correction_of m cn ac ac (correction_of m cn ac ac v) = correction_of m cn ac ac v"
  by (cases v) (simp_all add: correction_of_def Let_def)

lemma correction_of_settled:
  assumes "strip y = y" and "m y = None \<or> m y = Some y"
  shows "correction_of m cn ac cn (Str y) = Str y"
  using assms by (auto simp: correction_of_def Let_def)

lemma no_Str_cells:
  assumes "\<not> list_ex (list_ex is_Str) cols" and "col \<in> set cols" and "v \<in> set col"
  shows "\<not> is_Str v"
  using assms by (auto simp: list_ex_iff)

lemma same_on_cells:
  assumes "\<And>col v. col \<in> set cols \<Longrightarrow> v \<in> set col \<Longrightarrow> f (g v) = g v"
  shows "map (map f) (map (map g) cols) = map (map g) cols"
proof -
  have "map (map f) (map (map g) cols) = map (\<lambda>col. map (\<lambda>v. f (g v)) col) cols"
    by (simp add: comp_def)
  also have "\<dots> = map (\<lambda>col. map g col) cols"
    by (rule map_cong [OF refl], rule map_cong [OF refl], rule assms)
  finally show ?thesis .
qed

lemma fixed_on_cells:
  assumes "\<And>col v. col \<in> set cols \<Longrightarrow> v \<in> set col \<Longrightarrow> f v = v"
  shows "map (map f) cols = cols"
  by (rule map_idI, rule map_idI, rule assms)

text \<open>
  C8, as the code has it. When \<^verbatim>\<open>apply_corrections\<close> has returned and returns a second
  time, the magnitude column is what the first call left. The categorical column is what
  the first call left when every value of \<^verbatim>\<open>values_to_rename\<close> is free of surrounding
  white space and is not a key mapped to another string, and every cell of the column
  lies among these values.
\<close>

theorem apply_corrections_second_time:
  assumes "apply_corrections s column_name abs_column = (None, s1)"
    and "apply_corrections s1 column_name abs_column = (None, s2)"
  shows "\<exists>t1 t2. df s1 = Some t1 \<and> df s2 = Some t2
       \<and> labelled t2 abs_column = labelled t1 abs_column
       \<and> ((\<forall>y \<in> ran (values_to_rename s).
              strip y = y \<and> (values_to_rename s y = None \<or> values_to_rename s y = Some y))
           \<and> set (concat (labelled t1 column_name)) \<subseteq> Str ` ran (values_to_rename s)
           \<longrightarrow> labelled t2 column_name = labelled t1 column_name)"
proof -
  let ?m = "values_to_rename s"
  obtain t where t: "df s = Some t"
    using apply_corrections_loaded [OF assms(1)] by blast
  let ?t1 = "corrected_table ?m column_name abs_column t"
  let ?t2 = "corrected_table ?m column_name abs_column ?t1"
  note first = apply_corrections_success [OF t assms(1)]
  have s1: "df s1 = Some ?t1" "values_to_rename s1 = ?m"
    by (simp_all add: first(1))
  have s2: "df s2 = Some ?t2"
    using apply_corrections_success(1) [OF s1(1) assms(2)] by (simp add: s1(2))
  have magnitude: "labelled ?t2 abs_column = labelled ?t1 abs_column"
    unfolding labelled_corrected_table
    by (rule same_on_cells) (rule correction_of_magnitude_twice, rule no_Str_cells [OF first(3)])
  have categorical: "labelled ?t2 column_name = labelled ?t1 column_name"
    if settled: "\<forall>y \<in> ran ?m. strip y = y \<and> (?m y = None \<or> ?m y = Some y)"
      and among: "set (concat (labelled ?t1 column_name)) \<subseteq> Str ` ran ?m"
  proof -
    have "correction_of ?m column_name abs_column column_name v = v"
      if "col \<in> set (labelled ?t1 column_name)" and "v \<in> set col" for col v
    proof -
      from that among obtain y where "v = Str y" and "y \<in> ran ?m"
        by auto
      with settled show ?thesis
        by (simp add: correction_of_settled)
    qed
    then have "map (map (correction_of ?m column_name abs_column column_name))
        (labelled ?t1 column_name) = labelled ?t1 column_name"
      by (rule fixed_on_cells)
    then show ?thesis
      by (simp only: labelled_corrected_table [of ?m column_name abs_column ?t1])
  qed
  from s1(1) s2 magnitude categorical show ?thesis
    by blast
qed

lemma chained_loaded:
  "df chained_config = Some [(''Crop_type'', [Str ''teaa'']), (''Elevation'', [Num 1])]"
  by (simp add: chained_config_def)

theorem apply_corrections_range_counterexample:
  "values_to_rename chained_config ''teaa'' = Some ''tea''
   \<and> ''tea'' \<in> ran (values_to_rename chained_config)
   \<and> apply_corrections chained_config ''Crop_type'' ''Elevation''
       = (None, chained_config\<lparr>df := Some [(''Crop_type'', [Str ''tea'']), (''Elevation'', [Num 1])]\<rparr>)
   \<and> apply_corrections
         (chained_config\<lparr>df := Some [(''Crop_type'', [Str ''tea'']), (''Elevation'', [Num 1])]\<rparr>)
         ''Crop_type'' ''Elevation''
       = (None, chained_config\<lparr>df := Some [(''Crop_type'', [Str ''coffee'']), (''Elevation'', [Num 1])]\<rparr>)"
proof -
  have key: "values_to_rename chained_config ''teaa'' = Some ''tea''"
    by (simp add: chained_config_def)
  then have "''tea'' \<in> ran (values_to_rename chained_config)"
    by (rule ranI)
  moreover have "apply_corrections chained_config ''Crop_type'' ''Elevation''
       = (None, chained_config\<lparr>df := Some [(''Crop_type'', [Str ''tea'']), (''Elevation'', [Num 1])]\<rparr>)"
    by (simp add: apply_corrections_unfold [OF chained_loaded] three_updates)
       (simp add: chained_config_def corrected_table_def correction_of_def strip_examples)
  moreover have "apply_corrections
         (chained_config\<lparr>df := Some [(''Crop_type'', [Str ''tea'']), (''Elevation'', [Num 1])]\<rparr>)
         ''Crop_type'' ''Elevation''
       = (None, chained_config\<lparr>df := Some [(''Crop_type'', [Str ''coffee'']), (''Elevation'', [Num 1])]\<rparr>)"
    by (simp add: apply_corrections_unfold
          [of _ "[(''Crop_type'', [Str ''tea'']), (''Elevation'', [Num 1])]"] three_updates)
       (simp add: chained_config_def corrected_table_def correction_of_def strip_examples)
  ultimately show ?thesis
    using key by (intro conjI)
qed

lemma tea_corrections:
  "apply_corrections (survey_config\<lparr>df := Some tea_table\<rparr>) ''Crop_type'' ''Elevation''
     = (None, survey_config\<lparr>df := Some settled_table\<rparr>)"
  by (simp add: apply_corrections_unfold [of _ tea_table] three_updates)
     (simp add: tea_table_def settled_table_def corrected_table_def correction_of_def
        survey_config_def strip_examples)

lemma settled_corrections:
  "apply_corrections (survey_config\<lparr>df := Some settled_table\<rparr>) ''Crop_type'' ''Elevation''
     = (None, survey_config\<lparr>df := Some settled_table\<rparr>)"
  by (simp add: apply_corrections_unfold [of _ settled_table] three_updates)
     (simp add: settled_table_def corrected_table_def correction_of_def
        survey_config_def strip_examples)

lemma survey_values: "ran (values_to_rename survey_config) = {''wheat'', ''tea''}"
  by (simp add: survey_config_def)

theorem apply_corrections_second_time_witness:
  "apply_corrections (survey_config\<lparr>df := Some tea_table\<rparr>) ''Crop_type'' ''Elevation''
     = (None, survey_config\<lparr>df := Some settled_table\<rparr>)
   \<and> apply_corrections (survey_config\<lparr>df := Some settled_table\<rparr>) ''Crop_type'' ''Elevation''
     = (None, survey_config\<lparr>df := Some settled_table\<rparr>)
   \<and> ran (values_to_rename (survey_config\<lparr>df := Some tea_table\<rparr>)) = {''wheat'', ''tea''}
   \<and> set (concat (labelled settled_table ''Crop_type''))
       \<subseteq> Str ` ran (values_to_rename (survey_config\<lparr>df := Some tea_table\<rparr>))
   \<and> (\<exists>t1 t2. df (survey_config\<lparr>df := Some settled_table\<rparr>) = Some t1
         \<and> df (survey_config\<lparr>df := Some settled_table\<rparr>) = Some t2
         \<and> labelled t2 ''Elevation'' = labelled t1 ''Elevation''
         \<and> labelled t2 ''Crop_type'' = labelled t1 ''Crop_type'')"
proof -
  let ?m = "values_to_rename (survey_config\<lparr>df := Some tea_table\<rparr>)"
  have range_is: "ran ?m = {''wheat'', ''tea''}"
    by (simp add: survey_values)
  have settled: "\<forall>y \<in> ran ?m. strip y = y \<and> (?m y = None \<or> ?m y = Some y)"
    unfolding range_is by (simp add: strip_examples survey_config_def)
  have among: "set (concat (labelled settled_table ''Crop_type'')) \<subseteq> Str ` ran ?m"
    unfolding range_is by (simp add: settled_table_def)
  obtain t1 t2 where both: "df (survey_config\<lparr>df := Some settled_table\<rparr>) = Some t1"
      "df (survey_config\<lparr>df := Some settled_table\<rparr>) = Some t2"
      "labelled t2 ''Elevation'' = labelled t1 ''Elevation''"
    and unchanged: "(\<forall>y \<in> ran ?m. strip y = y \<and> (?m y = None \<or> ?m y = Some y))
           \<and> set (concat (labelled t1 ''Crop_type'')) \<subseteq> Str ` ran ?m
           \<longrightarrow> labelled t2 ''Crop_type'' = labelled t1 ''Crop_type''"
    using apply_corrections_second_time [OF tea_corrections settled_corrections] by blast
  have "t1 = settled_table"
    using both(1) by simp
  with settled among unchanged have "labelled t2 ''Crop_type'' = labelled t1 ''Crop_type''"
    by blast
  with both have "\<exists>t1 t2. df (survey_config\<lparr>df := Some settled_table\<rparr>) = Some t1
         \<and> df (survey_config\<lparr>df := Some settled_table\<rparr>) = Some t2
         \<and> labelled t2 ''Elevation'' = labelled t1 ''Elevation''
         \<and> labelled t2 ''Crop_type'' = labelled t1 ''Crop_type''"
    by blast
  then show ?thesis
    by (intro conjI tea_corrections settled_corrections range_is among)
qed

section \<open>rename_columns on a table that lacks a label\<close>

lemma relabel_one_way:
  assumes "b \<notin> set (columns_of t)"
  shows "map (\<lambda>(n, vs). (swap_label a b n, vs)) t = map (\<lambda>(n, vs). (if n = a then b else n, vs)) t"
proof (rule map_cong [OF refl])
  fix p assume "p \<in> set t"
  then have "fst p \<noteq> b"
    using assms by (auto simp: columns_of_def)
  then show "(case p of (n, vs) \<Rightarrow> (swap_label a b n, vs))
      = (case p of (n, vs) \<Rightarrow> (if n = a then b else n, vs))"
    by (cases p) (simp add: swap_label_def)
qed

lemma relabel_other_way:
  assumes "a \<notin> set (columns_of t)"
  shows "map (\<lambda>(n, vs). (swap_label a b n, vs)) t = map (\<lambda>(n, vs). (if n = b then a else n, vs)) t"
proof (rule map_cong [OF refl])
  fix p assume "p \<in> set t"
  then have "fst p \<noteq> a"
    using assms by (auto simp: columns_of_def)
  then show "(case p of (n, vs) \<Rightarrow> (swap_label a b n, vs))
      = (case p of (n, vs) \<Rightarrow> (if n = b then a else n, vs))"
    by (cases p) (simp add: swap_label_def)
qed

lemma relabel_nothing:
  assumes "a \<notin> set (columns_of t)" and "b \<notin> set (columns_of t)"
  shows "map (\<lambda>(n, vs). (swap_label a b n, vs)) t = t"
proof (rule map_idI)
  fix p assume "p \<in> set t"
  then have "fst p \<noteq> a" "fst p \<noteq> b"
    using assms by (auto simp: columns_of_def)
  then show "(case p of (n, vs) \<Rightarrow> (swap_label a b n, vs)) = p"
    by (rule swapped_other_columns)
qed

lemma process_after_ingest:
  assumes "ingest_sql_data E s0 = (None, s)" and "fst (rename_columns s) = None"
  shows "process E s0 =
     and_then (apply_corrections (snd (rename_columns s)) ''Crop_type'' ''Elevation'')
       (weather_station_mapping E)"
proof -
  obtain s' where "rename_columns s = (None, s')"
    using assms(2) by (cases "rename_columns s") simp
  then show ?thesis
    by (simp add: process_def and_then_def assms(1))
qed

text \<open>
  C3, as the code has it. A table that lacks one of the two labels makes
  \<^verbatim>\<open>rename_columns\<close> raise nothing: \<^verbatim>\<open>DataFrame.rename\<close> skips the labels it does not
  find. The call returns normally. If \<open>column1\<close> is there, its columns become \<open>column2\<close>;
  if only \<open>column2\<close> is there, its columns become \<open>column1\<close> (unless \<open>column1\<close> is the very
  placeholder the loop settles on); if neither is there the table is unchanged. So
  \<^verbatim>\<open>process\<close> does not stop at the rename step: after a successful load it goes on with
  \<^verbatim>\<open>apply_corrections\<close> on the table as renamed.
\<close>

theorem rename_columns_skips_missing_label:
  assumes "df s = Some t"
    and "columns_to_rename s = (column1, column2) # others"
    and "column1 \<notin> set (columns_of t) \<or> column2 \<notin> set (columns_of t)"
  shows "fst (rename_columns s) = None
       \<and> (column1 \<in> set (columns_of t) \<longrightarrow>
            df (snd (rename_columns s))
              = Some (map (\<lambda>(n, vs). (if n = column1 then column2 else n, vs)) t))
       \<and> (column2 \<in> set (columns_of t)
            \<and> column1 \<noteq> temp_name_loop (columns_of t) ''__temp_name_for_swap__'' \<longrightarrow>
            df (snd (rename_columns s))
              = Some (map (\<lambda>(n, vs). (if n = column2 then column1 else n, vs)) t))
       \<and> (column1 \<notin> set (columns_of t) \<and> column2 \<notin> set (columns_of t) \<longrightarrow>
            df (snd (rename_columns s)) = Some t)
       \<and> (\<forall>E s0. ingest_sql_data E s0 = (None, s) \<longrightarrow>
            process E s0 =
              and_then (apply_corrections (snd (rename_columns s)) ''Crop_type'' ''Elevation'')
                (weather_station_mapping E))"
proof -
  note table = rename_columns_table [OF assms(1) assms(2)]
  have returns: "fst (rename_columns s) = None"
    by (rule rename_columns_returns [OF assms(1) assms(2)])
  have source_only: "df (snd (rename_columns s))
      = Some (map (\<lambda>(n, vs). (if n = column1 then column2 else n, vs)) t)"
    if "column1 \<in> set (columns_of t)"
  proof -
    from that assms(3) have "column2 \<notin> set (columns_of t)" by blast
    then have "map (\<lambda>(n, vs). (swap_label column1 column2 n, vs)) t
        = map (\<lambda>(n, vs). (if n = column1 then column2 else n, vs)) t"
      by (rule relabel_one_way)
    then show ?thesis
      using rename_columns_table_swapped [OF assms(1) assms(2) that] by simp
  qed
  have target_only: "df (snd (rename_columns s))
      = Some (map (\<lambda>(n, vs). (if n = column2 then column1 else n, vs)) t)"
    if "column2 \<in> set (columns_of t)"
      and "column1 \<noteq> temp_name_loop (columns_of t) ''__temp_name_for_swap__''"
  proof -
    from that(1) assms(3) have "column1 \<notin> set (columns_of t)" by blast
    then show ?thesis
      using table that(2) by (simp add: relabel_other_way)
  qed
  have neither: "df (snd (rename_columns s)) = Some t"
    if "column1 \<notin> set (columns_of t)" and "column2 \<notin> set (columns_of t)"
    using table by (simp add: relabel_nothing [OF that])
  have goes_on: "\<forall>E s0. ingest_sql_data E s0 = (None, s) \<longrightarrow>
      process E s0 =
        and_then (apply_corrections (snd (rename_columns s)) ''Crop_type'' ''Elevation'')
          (weather_station_mapping E)"
    using process_after_ingest [OF _ returns] by blast
  from returns source_only target_only neither goes_on show ?thesis
    by blast
qed

lemma soil_ingest: "ingest_sql_data survey_sources soil_config = (None, soil_loaded)"
  by (simp add: ingest_sql_data_def survey_sources_def soil_config_def soil_loaded_def
      survey_config_def logger_info_def)

lemma soil_table: "df soil_loaded = Some survey_table"
  by (simp add: soil_loaded_def)

lemma soil_entry: "columns_to_rename soil_loaded = (''Soil_type'', ''Crop_type'') # []"
  by (simp add: soil_loaded_def soil_config_def)

lemma soil_missing: "''Soil_type'' \<notin> set (columns_of survey_table)"
  by (simp add: survey_table_def columns_of_def)

lemma survey_temp_name:
  "temp_name_loop (columns_of survey_table) ''__temp_name_for_swap__'' = ''__temp_name_for_swap__''"
  by (simp add: temp_name_loop.simps survey_table_def columns_of_def)

theorem rename_columns_skips_missing_label_witness:
  "''Soil_type'' \<notin> set (columns_of survey_table)
   \<and> ''Crop_type'' \<in> set (columns_of survey_table)
   \<and> fst (rename_columns soil_loaded) = None
   \<and> df (snd (rename_columns soil_loaded))
       = Some (map (\<lambda>(n, vs). (if n = ''Crop_type'' then ''Soil_type'' else n, vs)) survey_table)
   \<and> process survey_sources soil_config =
       and_then (apply_corrections (snd (rename_columns soil_loaded)) ''Crop_type'' ''Elevation'')
         (weather_station_mapping survey_sources)"
proof -
  have lacks: "''Soil_type'' \<notin> set (columns_of survey_table) \<or> ''Crop_type'' \<notin> set (columns_of survey_table)"
    using soil_missing by (rule disjI1)
  have target: "''Crop_type'' \<in> set (columns_of survey_table)"
    by (simp add: survey_table_def columns_of_def)
  have other: "''Soil_type'' \<noteq> temp_name_loop (columns_of survey_table) ''__temp_name_for_swap__''"
    by (simp add: survey_temp_name)
  note skips = rename_columns_skips_missing_label [OF soil_table soil_entry lacks]
  have returns: "fst (rename_columns soil_loaded) = None"
    by (rule skips [THEN conjunct1])
  have renamed: "df (snd (rename_columns soil_loaded))
       = Some (map (\<lambda>(n, vs). (if n = ''Crop_type'' then ''Soil_type'' else n, vs)) survey_table)"
    using skips [THEN conjunct2, THEN conjunct2, THEN conjunct1] target other by (rule mp [OF _ conjI])
  have goes_on: "process survey_sources soil_config =
       and_then (apply_corrections (snd (rename_columns soil_loaded)) ''Crop_type'' ''Elevation'')
         (weather_station_mapping survey_sources)"
    using skips [THEN conjunct2, THEN conjunct2, THEN conjunct2, THEN conjunct2] soil_ingest
    by (elim allE impE) assumption
  show ?thesis
    by (intro conjI soil_missing target returns renamed goes_on)
qed

theorem rename_columns_missing_label_counterexample:
  "''Soil_type'' \<notin> set (columns_of survey_table)
   \<and> ingest_sql_data survey_sources soil_config = (None, soil_loaded)
   \<and> df soil_loaded = Some survey_table
   \<and> columns_to_rename soil_loaded = [(''Soil_type'', ''Crop_type'')]
   \<and> fst (rename_columns soil_loaded) = None
   \<and> fst (process survey_sources soil_config) = Some (KeyError ''Crop_type'')
   \<and> df (snd (process survey_sources soil_config))
       = Some [(''Field_ID'', [Num 1, Num 2, Num 5]),
               (''Elevation'', [Num 120, Num 35, Num 0]),
               (''Annual_yield'', [Str ''maize '', Str '' teaa'', Str ''wheatn'']),
               (''Soil_type'', [Num 3, Num 1, Num 4])]"
proof -
  have returns: "fst (rename_columns soil_loaded) = None"
    by (simp add: rename_columns_def soil_loaded_def soil_config_def Let_def)
  have run: "process survey_sources soil_config
      = (Some (KeyError ''Crop_type''),
         soil_loaded
           \<lparr>logged := [''Sucessfully loaded data.'', ''Swapped columns: Soil_type with Crop_type''],
            df := Some [(''Field_ID'', [Num 1, Num 2, Num 5]),
               (''Elevation'', [Num 120, Num 35, Num 0]),
               (''Annual_yield'', [Str ''maize '', Str '' teaa'', Str ''wheatn'']),
               (''Soil_type'', [Num 3, Num 1, Num 4])]\<rparr>)"
    by (simp add: process_def and_then_def soil_ingest)
       (simp add: soil_loaded_def soil_config_def survey_config_def survey_table_def
          logger_info_def rename_columns_def columns_of_def df_rename_def temp_name_loop.simps
          apply_corrections_def df_getitem_def labelled_def frame_abs_def)
  show ?thesis
    using soil_entry by (simp add: soil_missing soil_ingest soil_table returns run)
qed

section \<open>The left join\<close>

















section \<open>process, step by step\<close>

lemma ingest_sql_data_failure:
  assumes "ingest_sql_data E s = (Some e, s1)"
  shows "df s1 = df s"
  using assms
  by (auto simp: ingest_sql_data_def Let_def split: sum.splits)

lemma rename_columns_failure:
  assumes "rename_columns s = (Some e, s')"
  shows "df s' = df s"
  using assms
  by (auto simp: rename_columns_def Let_def split: list.splits option.splits)

lemma apply_corrections_failure:
  assumes "apply_corrections s cn ac = (Some e, s')"
  shows "(s' = s \<and> (e = TypeError \<or> e = KeyError ac))
       \<or> (\<exists>t. df s = Some t \<and> s' = s\<lparr>df := Some (update_column ac (map cell_abs) t)\<rparr>
              \<and> (e = KeyError cn \<or> e = AttributeError))"
proof (cases "df s")
  case None
  with assms show ?thesis
    by (simp add: apply_corrections_def)
next
  case (Some t)
  show ?thesis
    using assms unfolding apply_corrections_unfold [OF Some]
    by (auto simp: Some split: if_splits list.splits)
qed

lemma weather_station_mapping_failure:
  assumes "weather_station_mapping E s = (Some e, s')"
  shows "s' = s"
  using assms
  by (auto simp: weather_station_mapping_def split: sum.splits option.splits)

lemma and_then_failed [simp]: "and_then (Some e, s) step = (Some e, s)"
  by (simp add: and_then_def)

lemma and_then_returned [simp]: "and_then (None, s) step = step s"
  by (simp add: and_then_def)

text \<open>
  C6, as the code has it. A run of \<^verbatim>\<open>process\<close> is one of five: the load raised; the load
  returned and the rename raised; these two returned and the corrections raised; these
  three returned and the enrichment raised; all four returned. The steps run in this
  order, each once, each on the processor the step before left, and the error of
  \<^verbatim>\<open>process\<close> is the error of the step that raised. When the load, the rename or the
  enrichment raises, the table is the one the last step that returned left. When the
  corrections raise at the magnitude column, too. When they raise at the categorical
  column, the magnitude column has already been replaced by its absolute values.
\<close>

theorem process_runs_steps_in_order:
  assumes "process E s = (r, s')"
  shows "(\<exists>e. ingest_sql_data E s = (Some e, s') \<and> r = Some e \<and> df s' = df s)
       \<or> (\<exists>s1 e. ingest_sql_data E s = (None, s1)
              \<and> rename_columns s1 = (Some e, s') \<and> r = Some e \<and> df s' = df s1)
       \<or> (\<exists>s1 s2 e. ingest_sql_data E s = (None, s1)
              \<and> rename_columns s1 = (None, s2)
              \<and> apply_corrections s2 ''Crop_type'' ''Elevation'' = (Some e, s') \<and> r = Some e
              \<and> ((s' = s2 \<and> (e = TypeError \<or> e = KeyError ''Elevation''))
                 \<or> (\<exists>t. df s2 = Some t
                        \<and> s' = s2\<lparr>df := Some (update_column ''Elevation'' (map cell_abs) t)\<rparr>
                        \<and> (e = KeyError ''Crop_type'' \<or> e = AttributeError))))
       \<or> (\<exists>s1 s2 s3 e. ingest_sql_data E s = (None, s1)
              \<and> rename_columns s1 = (None, s2)
              \<and> apply_corrections s2 ''Crop_type'' ''Elevation'' = (None, s3)
              \<and> weather_station_mapping E s3 = (Some e, s') \<and> r = Some e \<and> s' = s3)
       \<or> (\<exists>s1 s2 s3. ingest_sql_data E s = (None, s1)
              \<and> rename_columns s1 = (None, s2)
              \<and> apply_corrections s2 ''Crop_type'' ''Elevation'' = (None, s3)
              \<and> weather_station_mapping E s3 = (None, s') \<and> r = None)"
proof -
  obtain r1 s1 where load: "ingest_sql_data E s = (r1, s1)"
    by (cases "ingest_sql_data E s")
  show ?thesis
  proof (cases r1)
    case (Some e)
    with load assms have "r = Some e" "s' = s1"
      by (simp_all add: process_def)
    with load Some ingest_sql_data_failure [of E s e s1] show ?thesis
      by simp
  next
    case loaded: None
    obtain r2 s2 where rename: "rename_columns s1 = (r2, s2)"
      by (cases "rename_columns s1")
    show ?thesis
    proof (cases r2)
      case (Some e)
      with load loaded rename assms have "r = Some e" "s' = s2"
        by (simp_all add: process_def)
      with load loaded rename Some rename_columns_failure [of s1 e s2] show ?thesis
        by simp
    next
      case renamed: None
      obtain r3 s3 where correct: "apply_corrections s2 ''Crop_type'' ''Elevation'' = (r3, s3)"
        by (cases "apply_corrections s2 ''Crop_type'' ''Elevation''")
      show ?thesis
      proof (cases r3)
        case (Some e)
        with load loaded rename renamed correct assms have "r = Some e" "s' = s3"
          by (simp_all add: process_def)
        with load loaded rename renamed correct Some
          apply_corrections_failure [of s2 "''Crop_type''" "''Elevation''" e s3]
        show ?thesis
          by simp
      next
        case corrected: None
        have run: "weather_station_mapping E s3 = (r, s')"
          using load loaded rename renamed correct corrected assms
          by (simp add: process_def)
        show ?thesis
        proof (cases r)
          case (Some e)
          with run weather_station_mapping_failure [of E s3 e s'] have "s' = s3"
            by simp
          with load loaded rename renamed correct corrected run Some show ?thesis
            by simp
        next
          case None
          with load loaded rename renamed correct corrected run show ?thesis
            by simp
        qed
      qed
    qed
  qed
qed

lemma survey_run:
  "process survey_sources survey_config
     = (None, survey_config
         \<lparr>logged := [''Sucessfully loaded data.'', ''Swapped columns: Annual_yield with Crop_type''],
          df := Some (cleaned_table @ [(''Weather_station'', [Num 0, Num 7, Null])]),
          engine := Some ''sqlite:///survey.db''\<rparr>)"
  by (simp add: process_def ingest_sql_data_def survey_sources_def survey_config_def
      logger_info_def rename_columns_def columns_of_def df_rename_def temp_name_loop.simps
      survey_table_def apply_corrections_def df_getitem_def labelled_def frame_abs_def
      str_strip_def strip_def isspace_def weather_station_mapping_def station_lookup_def
      df_select_def df_merge_left_def overlapping_def left_rows_def right_rows_def
      fan_def partners_def cleaned_table_def)

theorem process_runs_steps_in_order_witness:
  "process survey_sources survey_config
     = (None, survey_config
         \<lparr>logged := [''Sucessfully loaded data.'', ''Swapped columns: Annual_yield with Crop_type''],
          df := Some (cleaned_table @ [(''Weather_station'', [Num 0, Num 7, Null])]),
          engine := Some ''sqlite:///survey.db''\<rparr>)
   \<and> (\<exists>s1 s2 s3. ingest_sql_data survey_sources survey_config = (None, s1)
          \<and> rename_columns s1 = (None, s2)
          \<and> apply_corrections s2 ''Crop_type'' ''Elevation'' = (None, s3)
          \<and> weather_station_mapping survey_sources s3
              = (None, survey_config
                  \<lparr>logged := [''Sucessfully loaded data.'',
                              ''Swapped columns: Annual_yield with Crop_type''],
                   df := Some (cleaned_table @ [(''Weather_station'', [Num 0, Num 7, Null])]),
                   engine := Some ''sqlite:///survey.db''\<rparr>))"
proof -
  have "\<exists>s1 s2 s3. ingest_sql_data survey_sources survey_config = (None, s1)
          \<and> rename_columns s1 = (None, s2)
          \<and> apply_corrections s2 ''Crop_type'' ''Elevation'' = (None, s3)
          \<and> weather_station_mapping survey_sources s3
              = (None, survey_config
                  \<lparr>logged := [''Sucessfully loaded data.'',
                              ''Swapped columns: Annual_yield with Crop_type''],
                   df := Some (cleaned_table @ [(''Weather_station'', [Num 0, Num 7, Null])]),
                   engine := Some ''sqlite:///survey.db''\<rparr>)"
    using process_runs_steps_in_order [OF survey_run] by simp
  with survey_run show ?thesis
    by (rule conjI)
qed

theorem process_partial_corrections_counterexample:
  "fst (ingest_sql_data numeric_sources survey_config) = None
   \<and> fst (rename_columns (snd (ingest_sql_data numeric_sources survey_config))) = None
   \<and> df (snd (rename_columns (snd (ingest_sql_data numeric_sources survey_config))))
       = Some [(''Field_ID'', [Num 1]), (''Elevation'', [Num (-120)]),
               (''Crop_type'', [Num 3]), (''Annual_yield'', [Num 4])]
   \<and> fst (process numeric_sources survey_config) = Some AttributeError
   \<and> df (snd (process numeric_sources survey_config))
       = Some [(''Field_ID'', [Num 1]), (''Elevation'', [Num 120]),
               (''Crop_type'', [Num 3]), (''Annual_yield'', [Num 4])]"
  by (simp add: process_def ingest_sql_data_def numeric_sources_def survey_config_def
      logger_info_def rename_columns_def columns_of_def df_rename_def temp_name_loop.simps
      numeric_table_def apply_corrections_def df_getitem_def labelled_def frame_abs_def
      str_strip_def)

end
